theory Spec2Isabelle
  imports Main
begin

section \<open>Python values, dictionaries and string helpers\<close>

text \<open>
  The configuration is a Python dict whose values are strings, integers or \<open>None\<close>.
  \<open>truthy\<close> is Python's truth test as used by \<^verbatim>\<open>all([host, username])\<close> and by
  \<^verbatim>\<open>if ssh_key_path:\<close>; an absent key read with \<^verbatim>\<open>.get(k)\<close> is \<open>None\<close>.
  Characters are code points below 256.
\<close>

datatype pyval = PNone | PStr string | PInt int

fun truthy :: "pyval \<Rightarrow> bool" where
  "truthy PNone = False"
| "truthy (PStr s) = (s \<noteq> [])"
| "truthy (PInt i) = (i \<noteq> 0)"

text \<open>An optional string argument (\<open>None\<close> or a \<open>str\<close>) under the same truth test.\<close>

definition truthy_opt :: "string option \<Rightarrow> bool" where
  "truthy_opt v = (case v of None \<Rightarrow> False | Some s \<Rightarrow> s \<noteq> [])"

type_synonym config = "string \<rightharpoonup> pyval"

definition dict_get :: "('k \<rightharpoonup> 'v) \<Rightarrow> 'k \<Rightarrow> 'v \<Rightarrow> 'v" where
  "dict_get d k dflt = (case d k of None \<Rightarrow> dflt | Some v \<Rightarrow> v)"

text \<open>\<^verbatim>\<open>os.path.basename\<close> on POSIX: everything after the last slash.\<close>

definition basename :: "string \<Rightarrow> string" where
  "basename p = rev (takeWhile (\<lambda>c. c \<noteq> CHR ''/'') (rev p))"

definition endswith :: "string \<Rightarrow> string \<Rightarrow> bool" where
  "endswith s suf = (length suf \<le> length s \<and> drop (length s - length suf) s = suf)"

definition startswith :: "string \<Rightarrow> string \<Rightarrow> bool" where
  "startswith s pre = (take (length pre) s = pre)"

text \<open>\<^verbatim>\<open>sep.join(parts)\<close>.\<close>

fun join :: "string \<Rightarrow> string list \<Rightarrow> string" where
  "join sep [] = []"
| "join sep [x] = x"
| "join sep (x # y # ys) = x @ sep @ join sep (y # ys)"

text \<open>
  \<^verbatim>\<open>str.strip()\<close> removes the white space of both ends; below 256 the white-space
  code points are 9 to 13, 28 to 32, 133 and 160.
\<close>

definition is_space :: "char \<Rightarrow> bool" where
  "is_space c = ((of_char c :: nat) \<in> {9, 10, 11, 12, 13, 28, 29, 30, 31, 32, 133, 160})"

definition strip :: "string \<Rightarrow> string" where
  "strip s = rev (dropWhile is_space (rev (dropWhile is_space s)))"

section \<open>The clock and the timestamp\<close>

text \<open>
  \<^verbatim>\<open>datetime.datetime.now()\<close> is an input of the model. The format string
  \<^verbatim>\<open>"%Y%m%d_%H%M%S"\<close> prints the year on four digits (years 1000 to 9999) and every
  other field on two, zero padded.
\<close>

record datetime =
  dt_year :: nat
  dt_month :: nat
  dt_day :: nat
  dt_hour :: nat
  dt_minute :: nat
  dt_second :: nat

definition digit :: "nat \<Rightarrow> char" where
  "digit n = ''0123456789'' ! (n mod 10)"

definition pad2 :: "nat \<Rightarrow> string" where
  "pad2 n = [digit (n div 10), digit n]"

definition pad4 :: "nat \<Rightarrow> string" where
  "pad4 n = [digit (n div 1000), digit (n div 100), digit (n div 10), digit n]"

definition is_digit :: "char \<Rightarrow> bool" where
  "is_digit c = (c \<in> set ''0123456789'')"

definition strftime :: "datetime \<Rightarrow> string" where
  "strftime t = pad4 (dt_year t) @ pad2 (dt_month t) @ pad2 (dt_day t) @ ''_''
     @ pad2 (dt_hour t) @ pad2 (dt_minute t) @ pad2 (dt_second t)"

section \<open>The remote side\<close>

text \<open>
  The session library is outside the repository. It is modelled by the outcome of each
  call that can fail (connecting, running a command and reading its decoded output,
  uploading) and by the trace of the calls made. Creating the two client objects and
  closing them report no failure.

  A step raises one of the exceptions below. The first four are instances of
  \<^verbatim>\<open>Exception\<close> (\<open>OtherException\<close> stands for every such class that is not named);
  \<^verbatim>\<open>KeyboardInterrupt\<close> and \<^verbatim>\<open>SystemExit\<close> derive from \<^verbatim>\<open>BaseException\<close> only.
\<close>

datatype exn =
    AuthenticationException
  | SSHException
  | AttributeError
  | OtherException
  | KeyboardInterrupt
  | SystemExit

text \<open>\<^verbatim>\<open>isinstance(e, Exception)\<close>.\<close>

fun is_Exception :: "exn \<Rightarrow> bool" where
  "is_Exception KeyboardInterrupt = False"
| "is_Exception SystemExit = False"
| "is_Exception e = True"

record connect_kwargs =
  kw_hostname :: pyval
  kw_port :: pyval
  kw_username :: pyval
  kw_key_filename :: "pyval option"
  kw_password :: "pyval option"

datatype event =
    SSHClient_new
  | Set_missing_host_key_policy
  | Connect connect_kwargs
  | SCPClient_new
  | Exec_command string
  | Put string string
  | Scp_close
  | Ssh_close

record remote =
  ssh_connect :: "connect_kwargs \<Rightarrow> exn option"
  ssh_exec_command :: "string \<Rightarrow> exn + string"
  scp_put :: "string \<Rightarrow> string \<Rightarrow> exn option"

section \<open>transfer\_scp\<close>

text \<open>Lines 89 to 92: the remote file name.\<close>

definition remote_filename :: "string \<Rightarrow> string option \<Rightarrow> string" where
  "remote_filename full_path custom_filename =
     (let filename = basename full_path in
      if truthy_opt custom_filename then the custom_filename @ ''-aos.data.tar.gz''
      else filename @ ''-aos.data.tar.gz'')"

text \<open>Line 86: the local archive that is uploaded.\<close>

definition full_aos_path :: "string \<Rightarrow> string" where
  "full_aos_path local_file_path = ''/var/lib/aos/snapshot/'' @ local_file_path @ ''/aos.data.tar.gz''"

text \<open>Lines 99 to 112: the arguments of \<^verbatim>\<open>ssh.connect\<close>.\<close>

definition connect_args :: "pyval \<Rightarrow> pyval \<Rightarrow> pyval \<Rightarrow> pyval \<Rightarrow> pyval \<Rightarrow> connect_kwargs" where
  "connect_args host port username password ssh_key_path =
     (let kw = \<lparr>kw_hostname = host, kw_port = port, kw_username = username,
                kw_key_filename = None, kw_password = None\<rparr> in
      if truthy ssh_key_path then kw\<lparr>kw_key_filename := Some ssh_key_path\<rparr>
      else if truthy password then kw\<lparr>kw_password := Some password\<rparr>
      else kw)"

text \<open>Lines 136 to 143: the upload, then both closes, then \<open>True\<close>.\<close>

definition upload :: "remote \<Rightarrow> event list \<Rightarrow> string \<Rightarrow> string \<Rightarrow> (exn + bool) \<times> event list" where
  "upload r tr src dst =
     (case scp_put r src dst of
        Some e \<Rightarrow> (Inl e, tr @ [Put src dst])
      | None \<Rightarrow> (Inr True, tr @ [Put src dst, Scp_close, Ssh_close]))"

text \<open>
  Lines 95 to 143: the body of the \<^verbatim>\<open>try\<close>. \<open>Inl e\<close> is the exception \<open>e\<close> raised
  inside it. \<^verbatim>\<open>remote_dir.endswith\<close> raises \<^verbatim>\<open>AttributeError\<close> when the configured
  value is not a string.
\<close>

definition try_block ::
  "remote \<Rightarrow> connect_kwargs \<Rightarrow> pyval \<Rightarrow> string \<Rightarrow> string \<Rightarrow> (exn + bool) \<times> event list" where
  "try_block r kw remote_dir src remote_name =
     (let tr = [SSHClient_new, Set_missing_host_key_policy, Connect kw] in
      case ssh_connect r kw of
        Some e \<Rightarrow> (Inl e, tr)
      | None \<Rightarrow>
         (let tr = tr @ [SCPClient_new] in
          case remote_dir of
            PStr d \<Rightarrow>
              (let d = (if \<not> endswith d ''/'' then d @ ''/'' else d) in
               if startswith d ''~/'' then
                 (let tr = tr @ [Exec_command ''echo $HOME''] in
                  case ssh_exec_command r ''echo $HOME'' of
                    Inl e \<Rightarrow> (Inl e, tr)
                  | Inr out \<Rightarrow>
                     (let home_dir = strip out in
                      upload r tr src (home_dir @ ''/'' @ drop 2 d @ remote_name)))
               else upload r tr src (d @ remote_name))
          | _ \<Rightarrow> (Inl AttributeError, tr)))"

text \<open>
  Lines 145 to 153: the three handlers, tried in order; each returns \<open>False\<close>. The
  last one is \<^verbatim>\<open>except Exception\<close>, so an exception that is no instance of
  \<^verbatim>\<open>Exception\<close> matches none of them and leaves the function.
\<close>

fun except_clauses :: "exn \<Rightarrow> exn + bool" where
  "except_clauses AuthenticationException = Inr False"
| "except_clauses SSHException = Inr False"
| "except_clauses e = (if is_Exception e then Inr False else Inl e)"

definition transfer_scp ::
  "remote \<Rightarrow> config \<Rightarrow> string \<Rightarrow> string \<Rightarrow> string option \<Rightarrow> (exn + bool) \<times> event list" where
  "transfer_scp r config local_file_path full_path custom_filename =
     (let host = dict_get config ''host'' PNone;
          port = dict_get config ''port'' (PInt 22);
          username = dict_get config ''username'' PNone;
          password = dict_get config ''password'' PNone;
          ssh_key_path = dict_get config ''ssh_key_path'' PNone;
          remote_dir = dict_get config ''remote_directory'' (PStr ''~/'')
      in
      if \<not> list_all truthy [host, username] then (Inr False, [])
      else
        (case try_block r (connect_args host port username password ssh_key_path) remote_dir
                (full_aos_path local_file_path) (remote_filename full_path custom_filename) of
           (Inl e, tr) \<Rightarrow> (except_clauses e, tr)
         | (Inr b, tr) \<Rightarrow> (Inr b, tr)))"

section \<open>transfer\_file\<close>

text \<open>Lines 30 to 43: the file name built from the blueprint and the clock.\<close>

definition filename_parts :: "string option \<Rightarrow> string option \<Rightarrow> string \<Rightarrow> string list" where
  "filename_parts blueprint_id blueprint_name timestamp =
     (if truthy_opt blueprint_name \<and> blueprint_name \<noteq> Some ''Default Blueprint''
        then [the blueprint_name]
      else if truthy_opt blueprint_id \<and> blueprint_id \<noteq> Some ''default''
        then [the blueprint_id]
      else []) @ [timestamp]"

definition custom_filename_of :: "string option \<Rightarrow> string option \<Rightarrow> datetime \<Rightarrow> string" where
  "custom_filename_of blueprint_id blueprint_name now =
     (let timestamp = strftime now in
      join ''-'' (filename_parts blueprint_id blueprint_name timestamp))"

definition transfer_file ::
  "remote \<Rightarrow> datetime \<Rightarrow> (string \<rightharpoonup> config) \<Rightarrow> string \<Rightarrow> string option \<Rightarrow> string option
     \<Rightarrow> (exn + bool) \<times> event list" where
  "transfer_file r now config full_path blueprint_id blueprint_name =
     (let custom_filename = custom_filename_of blueprint_id blueprint_name now;
          local_file_path = basename full_path;
          transfer_config = dict_get config ''transfer'' Map.empty
      in transfer_scp r transfer_config local_file_path full_path (Some custom_filename))"

section \<open>Definitions used to state the properties\<close>

text \<open>The keyword arguments that \<open>transfer_scp\<close> builds from a configuration.\<close>

definition kwargs_of :: "config \<Rightarrow> connect_kwargs" where
  "kwargs_of config =
     connect_args (dict_get config ''host'' PNone) (dict_get config ''port'' (PInt 22))
       (dict_get config ''username'' PNone) (dict_get config ''password'' PNone)
       (dict_get config ''ssh_key_path'' PNone)"

text \<open>
  The destination directory in the words of the specification (section 4.2, step 4):
  make the directory end with the separator; when it begins with the home shorthand,
  the remote home directory takes the place of the tilde.
\<close>

definition spec_resolved_directory :: "string \<Rightarrow> string \<Rightarrow> string" where
  "spec_resolved_directory home remote_directory =
     (let d = (if endswith remote_directory ''/'' then remote_directory
               else remote_directory @ ''/'')
      in if startswith d ''~/'' then home @ tl d else d)"

text \<open>Concrete configurations, clocks and remote sides for the evaluated instances.\<close>

definition config_example :: config where
  "config_example = [''host'' \<mapsto> PStr ''backup.example.net'', ''username'' \<mapsto> PStr ''svc'',
      ''remote_directory'' \<mapsto> PStr ''/srv/backups'']"

definition config_home :: config where
  "config_home = [''host'' \<mapsto> PStr ''backup.example.net'', ''username'' \<mapsto> PStr ''svc'',
      ''password'' \<mapsto> PStr ''pw'', ''remote_directory'' \<mapsto> PStr ''~/backups/'']"

definition clock_example :: datetime where
  "clock_example = \<lparr>dt_year = 2024, dt_month = 3, dt_day = 9,
      dt_hour = 14, dt_minute = 5, dt_second = 59\<rparr>"

definition remote_ok :: remote where
  "remote_ok = \<lparr>ssh_connect = (\<lambda>kw. None),
                ssh_exec_command = (\<lambda>c. Inr (''/home/svc'' @ [CHR 0x0A])),
                scp_put = (\<lambda>src dst. None)\<rparr>"

definition remote_put_fails :: remote where
  "remote_put_fails = remote_ok\<lparr>scp_put := (\<lambda>src dst. Some OtherException)\<rparr>"



definition top_config_example :: "string \<rightharpoonup> config" where
  "top_config_example = [''transfer'' \<mapsto> config_example]"

section \<open>Helper facts\<close>

lemma strftime_length: "length (strftime t) = 15"
  by (simp add: strftime_def pad2_def pad4_def)

lemma strftime_nonempty: "strftime t \<noteq> []"
  using strftime_length [of t] by auto

lemma join_last_nonempty: "x \<noteq> [] \<Longrightarrow> join sep (ps @ [x]) \<noteq> []"
proof (induction ps)
  case Nil
  then show ?case by simp
next
  case (Cons p ps)
  then show ?case by (cases ps) simp_all
qed

lemma digit_is_digit: "is_digit (digit n)"
  by (simp add: is_digit_def digit_def del: set_simps)

lemma strftime_shape:
  "list_all is_digit (take 8 (strftime t)) \<and> strftime t ! 8 = CHR ''_''
   \<and> list_all is_digit (drop 9 (strftime t))"
  by (simp add: strftime_def pad2_def pad4_def digit_is_digit)

lemma except_clauses_cases:
  "except_clauses e = (if is_Exception e then Inr False else Inl e)"
  by (cases e) simp_all

lemma endswith_slash_iff: "endswith s ''/'' \<longleftrightarrow> (\<exists>x. s = x @ ''/'')"
proof
  assume "endswith s ''/''"
  then have "1 \<le> length s" and "drop (length s - 1) s = ''/''"
    by (simp_all add: endswith_def)
  then have "s = take (length s - 1) s @ ''/''"
    by (metis append_take_drop_id)
  then show "\<exists>x. s = x @ ''/''" ..
next
  assume "\<exists>x. s = x @ ''/''"
  then show "endswith s ''/''" by (auto simp: endswith_def)
qed

lemma endswith_home_dir:
  assumes "endswith d ''/''"
  shows "endswith (h @ ''/'' @ drop 2 d) ''/''"
proof -
  from assms obtain x where x: "d = x @ ''/''"
    by (auto simp: endswith_slash_iff)
  show ?thesis
  proof (cases "length x < 2")
    case True
    then have "h @ ''/'' @ drop 2 d = h @ ''/''" using x by simp
    then show ?thesis by (auto simp: endswith_slash_iff)
  next
    case False
    then have "h @ ''/'' @ drop 2 d = (h @ ''/'' @ drop 2 x) @ ''/''" using x by simp
    then show ?thesis unfolding endswith_slash_iff by blast
  qed
qed

text \<open>Where an upload event of a run comes from, and what its two paths are.\<close>

lemma upload_put:
  "Put s t \<in> set (snd (upload r tr src dst)) \<Longrightarrow> Put s t \<in> set tr \<or> (s = src \<and> t = dst)"
  by (auto simp: upload_def split: option.splits)

lemma try_block_put:
  assumes "Put s t \<in> set (snd (try_block r kw remote_dir src remote_name))"
  shows "s = src \<and> (\<exists>dir. endswith dir ''/'' \<and> t = dir @ remote_name)"
proof (cases "ssh_connect r kw")
  case (Some e)
  with assms show ?thesis by (simp add: try_block_def)
next
  case None
  show ?thesis
  proof (cases remote_dir)
    case (PStr d0)
    define d where "d = (if \<not> endswith d0 ''/'' then d0 @ ''/'' else d0)"
    have d_slash: "endswith d ''/''"
      by (auto simp: d_def endswith_slash_iff)
    show ?thesis
    proof (cases "startswith d ''~/''")
      case True
      show ?thesis
      proof (cases "ssh_exec_command r ''echo $HOME''")
        case (Inl e)
        with assms None PStr True show ?thesis
          by (simp add: try_block_def d_def)
      next
        case (Inr out)
        with assms None PStr True
        have "Put s t \<in> set (snd (upload r [SSHClient_new, Set_missing_host_key_policy,
                 Connect kw, SCPClient_new, Exec_command ''echo $HOME''] src
                 (strip out @ ''/'' @ drop 2 d @ remote_name)))"
          by (simp add: try_block_def d_def)
        then have "s = src \<and> t = (strip out @ ''/'' @ drop 2 d) @ remote_name"
          by (auto dest: upload_put)
        with endswith_home_dir [OF d_slash, of "strip out"] show ?thesis by blast
      qed
    next
      case False
      with assms None PStr
      have "Put s t \<in> set (snd (upload r [SSHClient_new, Set_missing_host_key_policy,
                 Connect kw, SCPClient_new] src (d @ remote_name)))"
        by (simp add: try_block_def d_def)
      then have "s = src \<and> t = d @ remote_name"
        by (auto dest: upload_put)
      with d_slash show ?thesis by blast
    qed
  next
    case PNone
    with assms None show ?thesis by (simp add: try_block_def)
  next
    case (PInt i)
    with assms None show ?thesis by (simp add: try_block_def)
  qed
qed

lemma transfer_scp_trace:
  "snd (transfer_scp r config local_file_path full_path custom_filename) = []
   \<or> snd (transfer_scp r config local_file_path full_path custom_filename)
      = snd (try_block r (kwargs_of config)
          (dict_get config ''remote_directory'' (PStr ''~/''))
          (full_aos_path local_file_path) (remote_filename full_path custom_filename))"
  by (simp add: transfer_scp_def kwargs_of_def Let_def split: prod.splits sum.splits)

lemma transfer_scp_put:
  assumes "Put s t \<in> set (snd (transfer_scp r config local_file_path full_path custom_filename))"
  shows "s = full_aos_path local_file_path
     \<and> (\<exists>dir. endswith dir ''/'' \<and> t = dir @ remote_filename full_path custom_filename)"
  using assms transfer_scp_trace [of r config local_file_path full_path custom_filename]
    try_block_put by fastforce

text \<open>The result of a run, step by step: first the body of the \<^verbatim>\<open>try\<close>.\<close>

lemma try_block_Inr:
  "fst (try_block r kw remote_dir src remote_name) = Inr b
   \<longleftrightarrow> b \<and> (\<exists>dst. Put src dst \<in> set (snd (try_block r kw remote_dir src remote_name))
            \<and> scp_put r src dst = None)"
  by (auto simp: try_block_def upload_def Let_def
      split: option.splits sum.splits pyval.splits)





text \<open>Then the function around it.\<close>

lemma prod_sum_case:
  "(case p of (Inl e, tr) \<Rightarrow> (f e, tr) | (Inr b, tr) \<Rightarrow> (Inr b, tr))
   = (case fst p of Inl e \<Rightarrow> f e | Inr b \<Rightarrow> Inr b, snd p)"
  by (cases p; cases "fst p") auto

lemma transfer_scp_cases:
  "transfer_scp r config local_file_path full_path custom_filename = (Inr False, [])
   \<or> transfer_scp r config local_file_path full_path custom_filename
      = (case fst (try_block r (kwargs_of config)
                (dict_get config ''remote_directory'' (PStr ''~/''))
                (full_aos_path local_file_path) (remote_filename full_path custom_filename)) of
           Inl e \<Rightarrow> except_clauses e | Inr b \<Rightarrow> Inr b,
         snd (try_block r (kwargs_of config)
                (dict_get config ''remote_directory'' (PStr ''~/''))
                (full_aos_path local_file_path) (remote_filename full_path custom_filename)))"
  unfolding transfer_scp_def kwargs_of_def Let_def prod_sum_case by simp


lemma transfer_scp_True_iff:
  "fst (transfer_scp r config local_file_path full_path custom_filename) = Inr True
   \<longleftrightarrow> (\<exists>src dst. Put src dst
            \<in> set (snd (transfer_scp r config local_file_path full_path custom_filename))
          \<and> scp_put r src dst = None)"
proof -
  define tb where "tb = try_block r (kwargs_of config)
      (dict_get config ''remote_directory'' (PStr ''~/''))
      (full_aos_path local_file_path) (remote_filename full_path custom_filename)"
  define res where "res = transfer_scp r config local_file_path full_path custom_filename"
  have inr: "fst tb = Inr b \<longleftrightarrow> b \<and> (\<exists>dst. Put (full_aos_path local_file_path) dst \<in> set (snd tb)
            \<and> scp_put r (full_aos_path local_file_path) dst = None)" for b
    unfolding tb_def by (rule try_block_Inr)
  have put: "s = full_aos_path local_file_path" if "Put s t \<in> set (snd tb)" for s t
    using that try_block_put unfolding tb_def by blast
  have tb_iff: "fst tb = Inr True \<longleftrightarrow> (\<exists>s t. Put s t \<in> set (snd tb) \<and> scp_put r s t = None)"
    using inr [of True] put by blast
  consider "res = (Inr False, [])"
    | "res = (case fst tb of Inl e \<Rightarrow> except_clauses e | Inr b \<Rightarrow> Inr b, snd tb)"
    using transfer_scp_cases [of r config local_file_path full_path custom_filename]
    unfolding res_def tb_def by blast
  then have "fst res = Inr True \<longleftrightarrow> (\<exists>s t. Put s t \<in> set (snd res) \<and> scp_put r s t = None)"
  proof cases
    case 1
    then show ?thesis by simp
  next
    case 2
    have "fst res = Inr True \<longleftrightarrow> fst tb = Inr True"
      using 2 by (cases "fst tb") (auto simp: except_clauses_cases)
    moreover have "snd res = snd tb" using 2 by simp
    ultimately show ?thesis using tb_iff by simp
  qed
  then show ?thesis unfolding res_def .
qed





text \<open>Unfolding sets for the evaluation of a run at a concrete input.\<close>

lemmas eval_defs = transfer_scp_def dict_get_def try_block_def upload_def connect_args_def
  full_aos_path_def remote_filename_def basename_def endswith_def startswith_def truthy_opt_def
  strip_def is_space_def Let_def

lemmas clock_defs = custom_filename_of_def filename_parts_def strftime_def pad2_def pad4_def
  digit_def clock_example_def

lemma startswith_home_tl: "startswith d ''~/'' \<Longrightarrow> tl d = ''/'' @ drop 2 d"
  by (cases d; cases "tl d") (auto simp: startswith_def)

lemma endswith_append: "endswith (a @ s) s"
  by (simp add: endswith_def)

lemma custom_filename_suffix:
  "\<exists>pre. custom_filename_of blueprint_id blueprint_name now = pre @ strftime now"
  by (simp add: custom_filename_of_def filename_parts_def)

lemma transfer_file_unfold:
  "transfer_file r now config full_path blueprint_id blueprint_name
   = transfer_scp r (dict_get config ''transfer'' Map.empty) (basename full_path) full_path
       (Some (custom_filename_of blueprint_id blueprint_name now))"
  by (simp add: transfer_file_def)

lemma resolved_directory_slash: "endswith (spec_resolved_directory home d) ''/''"
proof -
  define d' where "d' = (if endswith d ''/'' then d else d @ ''/'')"
  have d'_slash: "endswith d' ''/''"
    by (auto simp: d'_def endswith_slash_iff)
  show ?thesis
  proof (cases "startswith d' ''~/''")
    case True
    then have "spec_resolved_directory home d = home @ ''/'' @ drop 2 d'"
      by (simp add: spec_resolved_directory_def d'_def startswith_home_tl)
    with endswith_home_dir [OF d'_slash, of home] show ?thesis by simp
  next
    case False
    then have "spec_resolved_directory home d = d'"
      by (simp add: spec_resolved_directory_def d'_def)
    with d'_slash show ?thesis by simp
  qed
qed

lemma try_block_resolved:
  assumes "ssh_connect r kw = None"
    and "startswith (if endswith d ''/'' then d else d @ ''/'') ''~/''
           \<longrightarrow> ssh_exec_command r ''echo $HOME'' = Inr out"
  shows "snd (try_block r kw (PStr d) src remote_name) =
      [SSHClient_new, Set_missing_host_key_policy, Connect kw, SCPClient_new]
      @ (if startswith (if endswith d ''/'' then d else d @ ''/'') ''~/''
         then [Exec_command ''echo $HOME''] else [])
      @ [Put src (spec_resolved_directory (strip out) d @ remote_name)]
      @ (if scp_put r src (spec_resolved_directory (strip out) d @ remote_name) = None
         then [Scp_close, Ssh_close] else [])"
  using assms
  by (auto simp: try_block_def upload_def spec_resolved_directory_def startswith_home_tl
      split: option.splits)

section \<open>The file name composer\<close>

text \<open>
  C8. For every pair of blueprint identifier and blueprint name, absent ones included,
  the composed file name is not the empty string: the timestamp is always its last part.
\<close>

theorem custom_filename_nonempty:
  "custom_filename_of blueprint_id blueprint_name now \<noteq> []"
  unfolding custom_filename_of_def filename_parts_def Let_def
  by (rule join_last_nonempty) (rule strftime_nonempty)

theorem custom_filename_nonempty_witness:
  "custom_filename_of None None clock_example \<noteq> []"
  using custom_filename_nonempty [of None None clock_example] by simp

text \<open>
  C5. The name component is chosen by the first rule that applies: the blueprint name
  when it is present and is not "Default Blueprint"; otherwise the blueprint identifier
  when it is present and is not "default"; otherwise none. The timestamp, fifteen
  characters of the shape YYYYMMDD\_HHMMSS, always comes last, and the parts are joined
  by a hyphen. With identifier "b1" and name "My Blueprint" the result starts with
  "My Blueprint-"; with only the name "Default Blueprint", or only the identifier
  "default", the result is the timestamp alone. A value is present when Python's truth
  test accepts it, as the source writes the test.
\<close>

theorem compose_policy:
  "custom_filename_of blueprint_id blueprint_name now =
     (if truthy_opt blueprint_name \<and> blueprint_name \<noteq> Some ''Default Blueprint''
        then the blueprint_name @ ''-'' @ strftime now
      else if truthy_opt blueprint_id \<and> blueprint_id \<noteq> Some ''default''
        then the blueprint_id @ ''-'' @ strftime now
      else strftime now)
   \<and> length (strftime now) = 15
   \<and> list_all is_digit (take 8 (strftime now)) \<and> strftime now ! 8 = CHR ''_''
   \<and> list_all is_digit (drop 9 (strftime now))
   \<and> custom_filename_of (Some ''b1'') (Some ''My Blueprint'') now
       = ''My Blueprint-'' @ strftime now
   \<and> custom_filename_of None (Some ''Default Blueprint'') now = strftime now
   \<and> custom_filename_of (Some ''default'') None now = strftime now"
  using strftime_shape [of now] strftime_length [of now]
  by (simp add: custom_filename_of_def filename_parts_def truthy_opt_def)

theorem compose_policy_witness:
  "custom_filename_of (Some ''b1'') None clock_example = ''b1-20240309_140559''
   \<and> custom_filename_of (Some ''b1'') (Some ''My Blueprint'') clock_example
       = ''My Blueprint-20240309_140559''"
  using compose_policy [of "Some ''b1''" None clock_example]
  by (simp add: truthy_opt_def strftime_def pad2_def pad4_def digit_def clock_example_def)

text \<open>
  C9. An empty string counts as an absent value. With the empty name and an identifier
  that is neither empty nor "default", the name component is the identifier; with the
  empty name and the empty identifier the result is the timestamp alone; and replacing
  an empty string by \<open>None\<close> never changes the result.
\<close>

theorem compose_empty_is_absent:
  "(i \<noteq> [] \<and> i \<noteq> ''default'' \<longrightarrow>
      custom_filename_of (Some i) (Some []) now = i @ ''-'' @ strftime now)
   \<and> custom_filename_of (Some []) (Some []) now = strftime now
   \<and> custom_filename_of blueprint_id (Some []) now = custom_filename_of blueprint_id None now
   \<and> custom_filename_of (Some []) blueprint_name now
       = custom_filename_of None blueprint_name now"
  by (simp add: custom_filename_of_def filename_parts_def truthy_opt_def)

theorem compose_empty_is_absent_witness:
  "custom_filename_of (Some ''bp-42'') (Some []) clock_example = ''bp-42-20240309_140559''
   \<and> custom_filename_of (Some []) (Some []) clock_example = ''20240309_140559''"
  using compose_empty_is_absent [of "''bp-42''" clock_example None None]
  by (simp add: strftime_def pad2_def pad4_def digit_def clock_example_def)

section \<open>The secure transfer client\<close>

text \<open>
  C2. When the host or the user name of the configuration is missing or empty,
  \<open>transfer_scp\<close> returns \<open>False\<close> at once and calls nothing of the session
  library: no client object is created and no connection is attempted.
\<close>

theorem missing_host_or_username:
  "\<not> truthy (dict_get config ''host'' PNone) \<or> \<not> truthy (dict_get config ''username'' PNone)
   \<Longrightarrow> transfer_scp r config local_file_path full_path custom_filename = (Inr False, [])"
  by (auto simp: transfer_scp_def)

theorem missing_host_or_username_witness:
  "transfer_scp remote_ok [''username'' \<mapsto> PStr ''svc''] ''snap1'' ''/tmp/snap1'' None
     = (Inr False, [])
   \<and> transfer_scp remote_ok [''host'' \<mapsto> PStr ''h'', ''username'' \<mapsto> PStr []]
        ''snap1'' ''/tmp/snap1'' None = (Inr False, [])"
  using missing_host_or_username [of "[''username'' \<mapsto> PStr ''svc'']" remote_ok
      "''snap1''" "''/tmp/snap1''" None]
    missing_host_or_username [of "[''host'' \<mapsto> PStr ''h'', ''username'' \<mapsto> PStr []]"
      remote_ok "''snap1''" "''/tmp/snap1''" None]
  by (simp add: dict_get_def)




text \<open>
  C1 (release on every exit path). The run below connects, creates the copy client and
  then fails in the upload: it returns \<open>False\<close> and its trace ends at the upload.
  Neither client is closed on this path; the two closes are written only after a
  completed upload.
\<close>

theorem upload_failure_leaks_session:
  "transfer_scp remote_put_fails config_example ''snap1'' ''/tmp/snap1'' None
   = (Inr False, [SSHClient_new, Set_missing_host_key_policy,
        Connect \<lparr>kw_hostname = PStr ''backup.example.net'', kw_port = PInt 22,
          kw_username = PStr ''svc'', kw_key_filename = None, kw_password = None\<rparr>,
        SCPClient_new,
        Put ''/var/lib/aos/snapshot/snap1/aos.data.tar.gz'' ''/srv/backups/snap1-aos.data.tar.gz''])
   \<and> count_list (snd (transfer_scp remote_put_fails config_example ''snap1'' ''/tmp/snap1'' None))
        Scp_close = 0
   \<and> count_list (snd (transfer_scp remote_put_fails config_example ''snap1'' ''/tmp/snap1'' None))
        Ssh_close = 0"
  by (simp add: eval_defs config_example_def remote_ok_def remote_put_fails_def)

text \<open>
  C3. Every upload of \<open>transfer_scp\<close> reads the archive at the fixed template
  \<^verbatim>\<open>/var/lib/aos/snapshot/<segment>/aos.data.tar.gz\<close>, whatever the configuration, the
  full path argument and the prefix are. Through \<open>transfer_file\<close> the segment is the
  base name of the full path, so the uploaded file is
  \<^verbatim>\<open>/var/lib/aos/snapshot/<basename(fullPath)>/aos.data.tar.gz\<close> and not the path the
  caller gave; a successful transfer has made such an upload.
\<close>

theorem upload_source_fixed:
  "(\<forall>src dst. Put src dst
        \<in> set (snd (transfer_scp r config local_file_path full_path custom_filename))
      \<longrightarrow> src = ''/var/lib/aos/snapshot/'' @ local_file_path @ ''/aos.data.tar.gz'')
   \<and> (\<forall>src dst. Put src dst
        \<in> set (snd (transfer_file r now top_config full_path blueprint_id blueprint_name))
      \<longrightarrow> src = ''/var/lib/aos/snapshot/'' @ basename full_path @ ''/aos.data.tar.gz'')
   \<and> (fst (transfer_file r now top_config full_path blueprint_id blueprint_name) = Inr True
      \<longrightarrow> (\<exists>dst. Put (''/var/lib/aos/snapshot/'' @ basename full_path @ ''/aos.data.tar.gz'') dst
              \<in> set (snd (transfer_file r now top_config full_path blueprint_id blueprint_name))))"
proof -
  have a: "src = ''/var/lib/aos/snapshot/'' @ local_file_path @ ''/aos.data.tar.gz''"
    if "Put src dst \<in> set (snd (transfer_scp r config local_file_path full_path custom_filename))"
    for src dst r config local_file_path full_path custom_filename
    using transfer_scp_put [OF that] by (simp add: full_aos_path_def)
  have b: "\<exists>dst. Put (''/var/lib/aos/snapshot/'' @ basename full_path @ ''/aos.data.tar.gz'') dst
              \<in> set (snd (transfer_file r now top_config full_path blueprint_id blueprint_name))"
    if t: "fst (transfer_file r now top_config full_path blueprint_id blueprint_name) = Inr True"
  proof -
    from t obtain src dst where
      p: "Put src dst \<in> set (snd (transfer_file r now top_config full_path blueprint_id blueprint_name))"
      unfolding transfer_file_unfold transfer_scp_True_iff by blast
    then have "src = ''/var/lib/aos/snapshot/'' @ basename full_path @ ''/aos.data.tar.gz''"
      unfolding transfer_file_unfold by (rule a)
    with p show ?thesis by blast
  qed
  show ?thesis
    using a b unfolding transfer_file_unfold by blast
qed

theorem upload_source_fixed_witness:
  "fst (transfer_file remote_ok clock_example top_config_example ''/tmp/backups/snap1''
         (Some ''b1'') None) = Inr True
   \<and> (\<exists>dst. Put ''/var/lib/aos/snapshot/snap1/aos.data.tar.gz'' dst
         \<in> set (snd (transfer_file remote_ok clock_example top_config_example ''/tmp/backups/snap1''
              (Some ''b1'') None)))"
proof -
  have "fst (transfer_file remote_ok clock_example top_config_example ''/tmp/backups/snap1''
         (Some ''b1'') None) = Inr True"
    by (simp add: transfer_file_def eval_defs clock_defs top_config_example_def
        config_example_def remote_ok_def)
  then show ?thesis
    using upload_source_fixed [of remote_ok Map.empty "[]" "''/tmp/backups/snap1''" None
        clock_example top_config_example "Some ''b1''" None]
    by (simp add: basename_def)
qed

text \<open>
  C4. In a run that passes validation and connects, with a configured (or default)
  remote directory \<open>d\<close>, the destination of the upload is the directory resolved as
  the specification words it, followed by the remote file name: \<open>d\<close> gets a trailing
  separator when it has none and, when it then begins with the home shorthand, the
  stripped answer of \<^verbatim>\<open>echo $HOME\<close>, asked over the session after connecting, stands
  for the tilde. That command is run in no other case. With \<^verbatim>\<open>~/backups/\<close> and the home
  directory \<^verbatim>\<open>/home/svc\<close> the directory is \<^verbatim>\<open>/home/svc/backups/\<close>; with
  \<^verbatim>\<open>/srv/backups\<close> it is \<^verbatim>\<open>/srv/backups/\<close>.
\<close>

theorem remote_path_resolution:
  assumes "truthy (dict_get config ''host'' PNone)"
    and "truthy (dict_get config ''username'' PNone)"
    and "dict_get config ''remote_directory'' (PStr ''~/'') = PStr d"
    and "ssh_connect r (kwargs_of config) = None"
    and "startswith (if endswith d ''/'' then d else d @ ''/'') ''~/''
           \<longrightarrow> ssh_exec_command r ''echo $HOME'' = Inr out"
  shows "snd (transfer_scp r config local_file_path full_path custom_filename) =
      [SSHClient_new, Set_missing_host_key_policy, Connect (kwargs_of config), SCPClient_new]
      @ (if startswith (if endswith d ''/'' then d else d @ ''/'') ''~/''
         then [Exec_command ''echo $HOME''] else [])
      @ [Put (full_aos_path local_file_path)
           (spec_resolved_directory (strip out) d @ remote_filename full_path custom_filename)]
      @ (if scp_put r (full_aos_path local_file_path)
              (spec_resolved_directory (strip out) d @ remote_filename full_path custom_filename)
            = None
         then [Scp_close, Ssh_close] else [])
    \<and> endswith (spec_resolved_directory (strip out) d) ''/''
    \<and> (d = ''~/backups/'' \<and> strip out = ''/home/svc'' \<longrightarrow>
         spec_resolved_directory (strip out) d = ''/home/svc/backups/'')
    \<and> (d = ''/srv/backups'' \<longrightarrow> spec_resolved_directory (strip out) d = ''/srv/backups/'')"
proof -
  have "snd (transfer_scp r config local_file_path full_path custom_filename)
      = snd (try_block r (kwargs_of config) (PStr d)
          (full_aos_path local_file_path) (remote_filename full_path custom_filename))"
    using assms(1-3)
    by (simp add: transfer_scp_def kwargs_of_def Let_def split: prod.splits sum.splits)
  moreover note try_block_resolved [OF assms(4) assms(5)]
  moreover have "d = ''~/backups/'' \<and> strip out = ''/home/svc'' \<longrightarrow>
         spec_resolved_directory (strip out) d = ''/home/svc/backups/''"
    by (simp add: spec_resolved_directory_def endswith_def startswith_def)
  moreover have "d = ''/srv/backups'' \<longrightarrow> spec_resolved_directory (strip out) d = ''/srv/backups/''"
    by (simp add: spec_resolved_directory_def endswith_def startswith_def)
  ultimately show ?thesis
    using resolved_directory_slash [of "strip out" d] by simp
qed

theorem remote_path_resolution_witness:
  "snd (transfer_scp remote_ok config_home ''snap1'' ''/tmp/snap1'' (Some ''bp-20240309_140559''))
   = [SSHClient_new, Set_missing_host_key_policy, Connect (kwargs_of config_home),
      SCPClient_new, Exec_command ''echo $HOME'',
      Put ''/var/lib/aos/snapshot/snap1/aos.data.tar.gz''
          ''/home/svc/backups/bp-20240309_140559-aos.data.tar.gz'',
      Scp_close, Ssh_close]"
  using remote_path_resolution [of config_home "''~/backups/''" remote_ok
      "''/home/svc'' @ [CHR 0x0A]" "''snap1''" "''/tmp/snap1''" "Some ''bp-20240309_140559''"]
  by (simp add: eval_defs config_home_def remote_ok_def kwargs_of_def)

text \<open>
  C6, as stated, fails for a prefix that is supplied and empty: the test on the prefix
  is Python's truth test, so the empty prefix takes the base name of the full path.
\<close>

theorem remote_filename_empty_prefix_counterexample:
  "snd (transfer_scp remote_ok config_example ''snap1'' ''/tmp/snap1'' (Some []))
   = [SSHClient_new, Set_missing_host_key_policy, Connect (kwargs_of config_example),
      SCPClient_new,
      Put ''/var/lib/aos/snapshot/snap1/aos.data.tar.gz'' ''/srv/backups/snap1-aos.data.tar.gz'',
      Scp_close, Ssh_close]
   \<and> remote_filename ''/tmp/snap1'' (Some []) = ''snap1-aos.data.tar.gz''
   \<and> remote_filename ''/tmp/snap1'' (Some []) \<noteq> [] @ ''-aos.data.tar.gz''"
  by (simp add: eval_defs config_example_def remote_ok_def kwargs_of_def)

text \<open>
  C6, amended. The remote file name is the prefix followed by \<^verbatim>\<open>-aos.data.tar.gz\<close>
  when a non-empty prefix is supplied, and the base name of the full path followed by
  the same suffix when the prefix is absent or empty. The suffix is the same for all
  inputs, and the destination of every upload is a directory ending with the separator
  followed by this name.
\<close>

theorem remote_filename_rule:
  "(custom_filename = Some p \<and> p \<noteq> [] \<longrightarrow>
      remote_filename full_path custom_filename = p @ ''-aos.data.tar.gz'')
   \<and> (custom_filename = None \<or> custom_filename = Some [] \<longrightarrow>
      remote_filename full_path custom_filename = basename full_path @ ''-aos.data.tar.gz'')
   \<and> endswith (remote_filename full_path custom_filename) ''-aos.data.tar.gz''
   \<and> (\<forall>src dst. Put src dst
          \<in> set (snd (transfer_scp r config local_file_path full_path custom_filename))
        \<longrightarrow> (\<exists>dir. endswith dir ''/'' \<and> dst = dir @ remote_filename full_path custom_filename))"
proof -
  have "endswith (remote_filename full_path custom_filename) ''-aos.data.tar.gz''"
    unfolding remote_filename_def Let_def by (simp add: endswith_append)
  moreover have "custom_filename = Some p \<and> p \<noteq> [] \<longrightarrow>
      remote_filename full_path custom_filename = p @ ''-aos.data.tar.gz''"
    by (simp add: remote_filename_def truthy_opt_def)
  moreover have "custom_filename = None \<or> custom_filename = Some [] \<longrightarrow>
      remote_filename full_path custom_filename = basename full_path @ ''-aos.data.tar.gz''"
    by (auto simp: remote_filename_def truthy_opt_def)
  ultimately show ?thesis
    using transfer_scp_put [of _ _ r config local_file_path full_path custom_filename]
    by blast
qed

theorem remote_filename_rule_witness:
  "remote_filename ''/tmp/snap1'' (Some ''bp'') = ''bp-aos.data.tar.gz''
   \<and> remote_filename ''/tmp/snap1'' None = ''snap1-aos.data.tar.gz''
   \<and> Put ''/var/lib/aos/snapshot/snap1/aos.data.tar.gz'' ''/srv/backups/bp-aos.data.tar.gz''
       \<in> set (snd (transfer_scp remote_ok config_example ''snap1'' ''/tmp/snap1'' (Some ''bp'')))
   \<and> (\<exists>dir. endswith dir ''/'' \<and> ''/srv/backups/bp-aos.data.tar.gz''
         = dir @ remote_filename ''/tmp/snap1'' (Some ''bp''))"
proof -
  note rule = remote_filename_rule [of "Some ''bp''" "''bp''" "''/tmp/snap1''" remote_ok
      config_example "''snap1''"]
  have ok: "Put ''/var/lib/aos/snapshot/snap1/aos.data.tar.gz'' ''/srv/backups/bp-aos.data.tar.gz''
       \<in> set (snd (transfer_scp remote_ok config_example ''snap1'' ''/tmp/snap1'' (Some ''bp'')))"
    by (simp add: eval_defs config_example_def remote_ok_def)
  have n: "remote_filename ''/tmp/snap1'' None = ''snap1-aos.data.tar.gz''"
    using remote_filename_rule [of None "[]" "''/tmp/snap1''" remote_ok config_example "''snap1''"]
    by (simp add: basename_def)
  have b: "remote_filename ''/tmp/snap1'' (Some ''bp'') = ''bp-aos.data.tar.gz''"
    using rule by simp
  have d: "\<exists>dir. endswith dir ''/'' \<and> ''/srv/backups/bp-aos.data.tar.gz''
         = dir @ remote_filename ''/tmp/snap1'' (Some ''bp'')"
    using rule ok by blast
  show ?thesis using ok n b d by blast
qed

section \<open>The entry point\<close>

text \<open>
  C10. \<open>transfer_file\<close> always hands \<open>transfer_scp\<close> a prefix, and that prefix is
  not empty. So the remote file name is the prefix followed by \<^verbatim>\<open>-aos.data.tar.gz\<close>,
  never the base name fallback, and the destination of every upload ends with the
  timestamp followed by \<^verbatim>\<open>-aos.data.tar.gz\<close>.
\<close>

theorem transfer_file_prefix:
  "transfer_file r now top_config full_path blueprint_id blueprint_name
     = transfer_scp r (dict_get top_config ''transfer'' Map.empty) (basename full_path) full_path
         (Some (custom_filename_of blueprint_id blueprint_name now))
   \<and> custom_filename_of blueprint_id blueprint_name now \<noteq> []
   \<and> remote_filename full_path (Some (custom_filename_of blueprint_id blueprint_name now))
       = custom_filename_of blueprint_id blueprint_name now @ ''-aos.data.tar.gz''
   \<and> (\<forall>src dst. Put src dst
          \<in> set (snd (transfer_file r now top_config full_path blueprint_id blueprint_name))
        \<longrightarrow> endswith dst (strftime now @ ''-aos.data.tar.gz''))"
proof -
  obtain pre where pre: "custom_filename_of blueprint_id blueprint_name now = pre @ strftime now"
    using custom_filename_suffix by blast
  then have ne: "custom_filename_of blueprint_id blueprint_name now \<noteq> []"
    using strftime_nonempty [of now] by simp
  then have rf: "remote_filename full_path (Some (custom_filename_of blueprint_id blueprint_name now))
       = custom_filename_of blueprint_id blueprint_name now @ ''-aos.data.tar.gz''"
    by (simp add: remote_filename_def truthy_opt_def)
  have "endswith dst (strftime now @ ''-aos.data.tar.gz'')"
    if "Put src dst \<in> set (snd (transfer_file r now top_config full_path blueprint_id blueprint_name))"
    for src dst
  proof -
    from that obtain dir where "dst = dir @ remote_filename full_path
        (Some (custom_filename_of blueprint_id blueprint_name now))"
      unfolding transfer_file_unfold using transfer_scp_put by blast
    then have "dst = (dir @ pre) @ (strftime now @ ''-aos.data.tar.gz'')"
      using rf pre by simp
    then show ?thesis using endswith_append by metis
  qed
  then show ?thesis using ne rf transfer_file_unfold by blast
qed

theorem transfer_file_prefix_witness:
  "Put ''/var/lib/aos/snapshot/snap1/aos.data.tar.gz''
       ''/srv/backups/b1-20240309_140559-aos.data.tar.gz''
     \<in> set (snd (transfer_file remote_ok clock_example top_config_example ''/tmp/backups/snap1''
              (Some ''b1'') None))
   \<and> endswith ''/srv/backups/b1-20240309_140559-aos.data.tar.gz''
       (strftime clock_example @ ''-aos.data.tar.gz'')"
proof -
  have "Put ''/var/lib/aos/snapshot/snap1/aos.data.tar.gz''
       ''/srv/backups/b1-20240309_140559-aos.data.tar.gz''
     \<in> set (snd (transfer_file remote_ok clock_example top_config_example ''/tmp/backups/snap1''
              (Some ''b1'') None))"
    by (simp add: transfer_file_def eval_defs clock_defs top_config_example_def
        config_example_def remote_ok_def)
  then show ?thesis
    using transfer_file_prefix [of remote_ok clock_example top_config_example
        "''/tmp/backups/snap1''" "Some ''b1''" None]
    by blast
qed

end
